theory Spec2Isabelle
  imports Main "HOL-Library.Word" "HOL-Library.Option_ord" "HOL-Library.Multiset"
begin

section \<open>JavaScript values used by App.js\<close>

text \<open>
  A JavaScript string is a sequence of UTF-16 code units. \<open>js\<close> embeds the ASCII
  literals of the source.
\<close>

type_synonym js_string = "16 word list"

definition js :: "string \<Rightarrow> js_string" where
  "js s = map (\<lambda>c. word_of_nat (of_char c)) s"

text \<open>
  \<open>String.prototype.trim\<close> removes WhiteSpace and LineTerminator code points from both
  ends (ECMAScript: TAB, VT, FF, ZWNBSP, the space separators Zs, and LF, CR, LS, PS).
\<close>

definition isWhiteSpace :: "16 word \<Rightarrow> bool" where
  "isWhiteSpace c =
     (c = 0x09 \<or> c = 0x0A \<or> c = 0x0B \<or> c = 0x0C \<or> c = 0x0D \<or> c = 0x20 \<or> c = 0xA0 \<or>
      c = 0x1680 \<or> (0x2000 \<le> c \<and> c \<le> 0x200A) \<or> c = 0x2028 \<or> c = 0x2029 \<or>
      c = 0x202F \<or> c = 0x205F \<or> c = 0x3000 \<or> c = 0xFEFF)"

definition trim :: "js_string \<Rightarrow> js_string" where
  "trim s = dropWhile isWhiteSpace (rev (dropWhile isWhiteSpace (rev s)))"

text \<open>Truthiness of a value that is \<open>null\<close> or a string: \<open>null\<close> and \<open>''\<close> are falsy.\<close>

definition truthy :: "js_string option \<Rightarrow> bool" where
  "truthy v = (case v of None \<Rightarrow> False | Some s \<Rightarrow> s \<noteq> [])"

text \<open>A \<open>Date\<close> is its time value, in milliseconds since the epoch.\<close>

type_synonym date = int

datatype js_error = JsError string

datatype firestore = Firestore nat

datatype firebase_auth = FirebaseAuth nat

section \<open>Data model\<close>

text \<open>
  The \<open>createdAt\<close> field handed to \<open>addDoc\<close> is either the \<open>serverTimestamp()\<close> sentinel,
  which the store replaces by its own clock reading, or a date the client computed.
\<close>

datatype field_value = ServerTimestamp | ClientDate date

text \<open>The object literal passed to \<open>addDoc\<close>: \<open>{text, uid, createdAt}\<close>.\<close>

record written_doc =
  w_text :: js_string
  w_uid :: js_string
  w_createdAt :: field_value

text \<open>
  A document of a snapshot: \<open>doc.id\<close> and the fields of \<open>doc.data()\<close>. The collection
  holds only documents written by \<open>handleSendMessage\<close>, so \<open>text\<close> and \<open>uid\<close> are strings;
  \<open>createdAt\<close> is a store-native timestamp of type \<open>'ts\<close>, or \<open>null\<close> while the store has
  not assigned it.
\<close>

record 'ts snapshot_doc =
  doc_id :: js_string
  doc_text :: js_string
  doc_uid :: js_string
  doc_createdAt :: "'ts option"

text \<open>An element of the \<open>messages\<close> state: the document with \<open>createdAt\<close> as a \<open>Date\<close>.\<close>

record message =
  msg_id :: js_string
  msg_text :: js_string
  msg_uid :: js_string
  msg_createdAt :: date

text \<open>The \<open>useState\<close> cells of the component.\<close>

record app_state =
  db :: "firestore option"
  auth :: "firebase_auth option"
  userId :: "js_string option"
  messages :: "message list"
  newMessage :: js_string
  loading :: bool
  darkMode :: bool

definition initial_state :: app_state where
  "initial_state =
     \<lparr>db = None, auth = None, userId = None, messages = [], newMessage = [],
      loading = True, darkMode = False\<rparr>"

text \<open>What a handler does to the world outside the component state.\<close>

datatype effect =
    PreventDefault
  | AddDoc js_string written_doc
  | ConsoleError string js_error
  | SignInWithCustomToken js_string
  | SignInAnonymously
  | RegisterAuthObserver
  | OnSnapshot js_string string nat
  | Unsubscribe nat

definition chatCollectionPath :: "js_string \<Rightarrow> js_string" where
  "chatCollectionPath appId = js ''/artifacts/'' @ appId @ js ''/public/data/chatMessages''"

section \<open>Session bootstrap: the mount effect\<close>

text \<open>
  What the environment supplies and answers during a startup.
  \<^item> \<open>env_firebase_config\<close> is the global \<open>__firebase_config\<close>: \<open>None\<close> when it is undefined,
    otherwise what \<open>JSON.parse\<close> makes of it, a thrown error (\<open>Inl\<close>) or a configuration.
  \<^item> \<open>env_initial_auth_token\<close> is \<open>__initial_auth_token\<close>, \<open>None\<close> when it is undefined or
    \<open>null\<close>.
  \<^item> \<open>env_initializeApp\<close>: whether \<open>initializeApp\<close>, \<open>getFirestore\<close> or \<open>getAuth\<close> throws
    (\<open>Inl\<close>) or yields an app.
  \<^item> \<open>env_signIn\<close>: the promise of the awaited sign-in is still pending, is rejected or is
    resolved.
  \<^item> \<open>env_observer\<close>: the observer passed to \<open>onAuthStateChanged\<close> has not been called, or
    has been called with a user (\<open>user.uid\<close>) or with \<open>null\<close>; the second argument is what
    \<open>crypto.randomUUID()\<close> does when it is called, throw (\<open>Inl\<close>) or return an id.
\<close>

datatype signIn_outcome = SignInPending | SignInRejected js_error | SignInResolved

datatype observer_call =
    ObserverNotCalled
  | ObserverCalled "js_string option" "js_error + js_string"

record startup_env =
  env_firebase_config :: "(js_error + nat) option"
  env_initial_auth_token :: "js_string option"
  env_initializeApp :: "js_error + nat"
  env_signIn :: signIn_outcome
  env_observer :: observer_call

text \<open>
  The observer passed to \<open>onAuthStateChanged\<close>. With a \<open>null\<close> user it stores what
  \<open>crypto.randomUUID()\<close> returns; when that call throws, neither setter is reached.
\<close>

definition onAuthStateChanged_callback ::
    "js_string option \<Rightarrow> js_error + js_string \<Rightarrow> app_state \<Rightarrow> app_state" where
  "onAuthStateChanged_callback user uuid st =
     (case user of
        Some uid \<Rightarrow> st\<lparr>userId := Some uid, loading := False\<rparr>
      | None \<Rightarrow>
          (case uuid of
             Inr fresh \<Rightarrow> st\<lparr>userId := Some fresh, loading := False\<rparr>
           | Inl e \<Rightarrow> st))"

text \<open>The sign-in that \<open>setupFirebase\<close> calls: with the token when it is truthy.\<close>

definition signIn_call :: "startup_env \<Rightarrow> effect" where
  "signIn_call env =
     (case env_initial_auth_token env of
        None \<Rightarrow> SignInAnonymously
      | Some t \<Rightarrow> if t \<noteq> [] then SignInWithCustomToken t else SignInAnonymously)"

text \<open>
  \<open>setupFirebase\<close> up to the registration of the observer. While the sign-in is pending
  the function is suspended at its \<open>await\<close>. The result says whether the observer was
  registered.
\<close>

definition setupFirebase :: "startup_env \<Rightarrow> app_state \<Rightarrow> app_state \<times> effect list \<times> bool" where
  "setupFirebase env st =
     (case env_initializeApp env of
        Inl e \<Rightarrow> (st\<lparr>loading := False\<rparr>, [ConsoleError ''Error setting up Firebase:'' e], False)
      | Inr app \<Rightarrow>
          (let st1 = st\<lparr>db := Some (Firestore app), auth := Some (FirebaseAuth app)\<rparr>
           in case env_signIn env of
                SignInPending \<Rightarrow> (st1, [signIn_call env], False)
              | SignInRejected e \<Rightarrow>
                  (st1\<lparr>loading := False\<rparr>,
                   [signIn_call env, ConsoleError ''Error setting up Firebase:'' e], False)
              | SignInResolved \<Rightarrow> (st1, [signIn_call env, RegisterAuthObserver], True)))"

text \<open>
  A startup. The component function evaluates \<open>JSON.parse(__firebase_config)\<close> while it
  renders, outside any \<open>try\<close>: when that throws, the first render throws and nothing is
  mounted. Otherwise the component mounts in its initial state, the mount effect runs
  \<open>setupFirebase\<close>, and the observer, once registered, is called or not as the
  environment says.
\<close>

datatype mount_result = RenderThrows js_error | Mounted app_state "effect list"

definition startup :: "startup_env \<Rightarrow> mount_result" where
  "startup env =
     (case env_firebase_config env of
        Some (Inl e) \<Rightarrow> RenderThrows e
      | _ \<Rightarrow>
          (case setupFirebase env initial_state of
             (st1, es, registered) \<Rightarrow>
               Mounted
                 (if registered
                  then (case env_observer env of
                          ObserverNotCalled \<Rightarrow> st1
                        | ObserverCalled user uuid \<Rightarrow> onAuthStateChanged_callback user uuid st1)
                  else st1)
                 es))"


section \<open>Live feed: the subscription effect and its callbacks\<close>

text \<open>
  \<open>snapshot.docs.map(...)\<close>: \<open>toDate\<close> is the store's \<open>Timestamp.toDate\<close>; \<open>clock i\<close> is
  what \<open>new Date()\<close> reads while element \<open>i\<close> is mapped.
\<close>

fun fetchedMessages ::
    "('ts \<Rightarrow> date) \<Rightarrow> (nat \<Rightarrow> date) \<Rightarrow> nat \<Rightarrow> 'ts snapshot_doc list \<Rightarrow> message list" where
  "fetchedMessages toDate clock i [] = []"
| "fetchedMessages toDate clock i (d # ds) =
     \<lparr>msg_id = doc_id d, msg_text = doc_text d, msg_uid = doc_uid d,
      msg_createdAt = (case doc_createdAt d of Some ts \<Rightarrow> toDate ts | None \<Rightarrow> clock i)\<rparr>
     # fetchedMessages toDate clock (Suc i) ds"

definition onSnapshot_next ::
    "('ts \<Rightarrow> date) \<Rightarrow> (nat \<Rightarrow> date) \<Rightarrow> 'ts snapshot_doc list \<Rightarrow> app_state \<Rightarrow> app_state" where
  "onSnapshot_next toDate clock docs st = st\<lparr>messages := fetchedMessages toDate clock 0 docs\<rparr>"

definition onSnapshot_error :: "js_error \<Rightarrow> app_state \<Rightarrow> app_state \<times> effect list" where
  "onSnapshot_error e st = (st, [ConsoleError ''Error fetching messages:'' e])"

text \<open>
  The path check of the Firestore SDK's \<open>collection(db, path)\<close>, which is not part of the
  repository: the call throws when the path is empty or contains \<open>//\<close>, and when the
  number of its non-empty segments (\<open>path.split('/')\<close>) is even, because such a path names a
  document.
\<close>

fun has_double_slash :: "js_string \<Rightarrow> bool" where
  "has_double_slash (a # b # s) = ((a = 0x2F \<and> b = 0x2F) \<or> has_double_slash (b # s))"
| "has_double_slash s = False"

fun segments :: "js_string \<Rightarrow> js_string \<Rightarrow> js_string list" where
  "segments cur [] = (if cur = [] then [] else [cur])"
| "segments cur (c # s) =
     (if c = 0x2F then (if cur = [] then [] else [cur]) @ segments [] s
      else segments (cur @ [c]) s)"

definition collection_accepts :: "js_string \<Rightarrow> bool" where
  "collection_accepts path =
     (path \<noteq> [] \<and> \<not> has_double_slash path \<and> odd (length (segments [] path)))"

text \<open>
  The body of the subscription effect. \<open>h\<close> names the listener that \<open>onSnapshot\<close> registers.
  The body has no \<open>try\<close>: when \<open>collection\<close> refuses the path the effect throws (\<open>Inl\<close>)
  before \<open>onSnapshot\<close> is reached. Otherwise the result is the cleanup the effect returns
  (\<open>Some h\<close> stands for \<open>() => unsubscribe()\<close>) and what the body did.
\<close>

definition subscription_effect ::
    "js_string \<Rightarrow> firestore option \<Rightarrow> js_string option \<Rightarrow> nat \<Rightarrow>
     js_error + nat option \<times> effect list" where
  "subscription_effect appId d u h =
     (if d \<noteq> None \<and> truthy u
      then
        (if collection_accepts (chatCollectionPath appId)
         then Inr (Some h, [OnSnapshot (chatCollectionPath appId) ''createdAt'' h])
         else Inl (JsError ''invalid-argument''))
      else Inr (None, []))"

definition run_cleanup :: "nat option \<Rightarrow> effect list" where
  "run_cleanup c = (case c of None \<Rightarrow> [] | Some h \<Rightarrow> [Unsubscribe h])"

text \<open>
  React, which is not part of the repository, runs the effect. Its contract for
  \<open>useEffect(f, [db, userId, appId])\<close>: after the first render, and after a render whose
  dependencies differ from those of the previous one, the previous cleanup runs and then
  \<open>f\<close>; on unmount the last cleanup runs. When \<open>f\<close> throws, the component, which has no
  error boundary, is unmounted; the effect that threw has returned no cleanup. \<open>trace\<close>
  records what the effect and its cleanups did, \<open>next_handle\<close> names the next listener.
\<close>

record effect_slot =
  mounted :: bool
  last_deps :: "(firestore option \<times> js_string option \<times> js_string) option"
  cleanup_fn :: "nat option"
  next_handle :: nat
  trace :: "effect list"

datatype lifecycle_event =
    Render "firestore option" "js_string option" js_string
  | Unmount

definition unmounted_slot :: effect_slot where
  "unmounted_slot =
     \<lparr>mounted = False, last_deps = None, cleanup_fn = None, next_handle = 0, trace = []\<rparr>"

fun react_step :: "effect_slot \<Rightarrow> lifecycle_event \<Rightarrow> effect_slot" where
  "react_step w (Render d u a) =
     (if mounted w \<and> last_deps w = Some (d, u, a) then w
      else
        (case subscription_effect a d u (next_handle w) of
           Inl e \<Rightarrow>
             w\<lparr>mounted := False, last_deps := None, cleanup_fn := None,
               trace := trace w @ run_cleanup (cleanup_fn w)\<rparr>
         | Inr (c, es) \<Rightarrow>
             w\<lparr>mounted := True, last_deps := Some (d, u, a), cleanup_fn := c,
               next_handle := (case c of None \<Rightarrow> next_handle w | Some h \<Rightarrow> Suc (next_handle w)),
               trace := trace w @ run_cleanup (cleanup_fn w) @ es\<rparr>))"
| "react_step w Unmount =
     (if mounted w
      then w\<lparr>mounted := False, last_deps := None, cleanup_fn := None,
             trace := trace w @ run_cleanup (cleanup_fn w)\<rparr>
      else w)"

definition run_lifecycle :: "lifecycle_event list \<Rightarrow> effect_slot" where
  "run_lifecycle evs = foldl react_step unmounted_slot evs"

text \<open>
  The listeners a trace of effects opens and cancels, in order, and the listeners that
  are live after it (\<open>acc\<close>: those live before it).
\<close>

fun opened :: "effect list \<Rightarrow> nat list" where
  "opened [] = []"
| "opened (OnSnapshot p f h # es) = h # opened es"
| "opened (e # es) = opened es"

fun cancelled :: "effect list \<Rightarrow> nat list" where
  "cancelled [] = []"
| "cancelled (Unsubscribe h # es) = h # cancelled es"
| "cancelled (e # es) = cancelled es"

fun active_after :: "nat list \<Rightarrow> effect list \<Rightarrow> nat list" where
  "active_after acc [] = acc"
| "active_after acc (OnSnapshot p f h # es) = active_after (acc @ [h]) es"
| "active_after acc (Unsubscribe h # es) = active_after (removeAll h acc) es"
| "active_after acc (e # es) = active_after acc es"

definition active :: "effect list \<Rightarrow> nat list" where
  "active tr = active_after [] tr"

text \<open>At no point of the trace is more than one listener live.\<close>

definition at_most_one :: "effect list \<Rightarrow> bool" where
  "at_most_one tr = (\<forall>n. length (active (take n tr)) \<le> 1)"

text \<open>The invariant of the subscription effect's slot.\<close>

definition slot_inv :: "effect_slot \<Rightarrow> bool" where
  "slot_inv w =
     (at_most_one (trace w) \<and>
      opened (trace w) = [0..<next_handle w] \<and>
      (case cleanup_fn w of
         None \<Rightarrow> cancelled (trace w) = [0..<next_handle w] \<and> active (trace w) = []
       | Some h \<Rightarrow> next_handle w = Suc h \<and> cancelled (trace w) = [0..<h] \<and>
                   active (trace w) = [h]) \<and>
      (\<not> mounted w \<longrightarrow> cleanup_fn w = None))"

section \<open>Composer\<close>

datatype addDoc_outcome = Resolved | Rejected js_error

datatype send_phase = Returned | Awaiting

text \<open>
  \<open>handleSendMessage\<close> up to the \<open>await\<close>. The path it hands to \<open>collection\<close> is the one
  the subscription effect builds: at a path that \<open>collection\<close> refuses, that effect throws
  as soon as \<open>db\<close> and \<open>userId\<close> are set and the component is unmounted, so no submit
  passes the guard there.
\<close>

definition handleSendMessage_call :: "js_string \<Rightarrow> app_state \<Rightarrow> send_phase \<times> effect list" where
  "handleSendMessage_call appId st =
     (if trim (newMessage st) = [] \<or> db st = None \<or> \<not> truthy (userId st)
      then (Returned, [PreventDefault])
      else
        (Awaiting,
         [PreventDefault,
          AddDoc (chatCollectionPath appId)
            \<lparr>w_text = newMessage st, w_uid = the (userId st), w_createdAt = ServerTimestamp\<rparr>]))"

text \<open>
  The rest of \<open>handleSendMessage\<close>, run when the promise of \<open>addDoc\<close> settles, on the state
  the component has by then.
\<close>

definition handleSendMessage_settle :: "addDoc_outcome \<Rightarrow> app_state \<Rightarrow> app_state \<times> effect list" where
  "handleSendMessage_settle outcome st =
     (case outcome of
        Resolved \<Rightarrow> (st\<lparr>newMessage := []\<rparr>, [])
      | Rejected e \<Rightarrow> (st, [ConsoleError ''Error sending message:'' e]))"

text \<open>A submit with no other event between the call and the settling of the write.\<close>

definition handleSendMessage ::
    "js_string \<Rightarrow> addDoc_outcome \<Rightarrow> app_state \<Rightarrow> app_state \<times> effect list" where
  "handleSendMessage appId outcome st =
     (case handleSendMessage_call appId st of
        (Returned, es) \<Rightarrow> (st, es)
      | (Awaiting, es) \<Rightarrow>
          (case handleSendMessage_settle outcome st of (st', es') \<Rightarrow> (st', es @ es')))"

definition toggleDarkMode :: "app_state \<Rightarrow> app_state" where
  "toggleDarkMode st = st\<lparr>darkMode := \<not> darkMode st\<rparr>"

text \<open>The documents that a list of effects hands to \<open>addDoc\<close>.\<close>

fun store_writes :: "effect list \<Rightarrow> written_doc list" where
  "store_writes [] = []"
| "store_writes (AddDoc p d # es) = d # store_writes es"
| "store_writes (e # es) = store_writes es"

section \<open>Thread renderer\<close>

record rendered_message =
  r_key :: js_string
  r_row_class :: string
  r_bubble_class :: string
  r_label :: "js_string option"
  r_text :: js_string
  r_time_class :: string
  r_time :: string

text \<open>One element of \<open>messages.map(...)\<close>; \<open>fmt\<close> is \<open>Date.prototype.toLocaleTimeString\<close>.\<close>

definition render_message :: "(date \<Rightarrow> string) \<Rightarrow> js_string option \<Rightarrow> message \<Rightarrow> rendered_message" where
  "render_message fmt u m =
     \<lparr>r_key = msg_id m,
      r_row_class =
        ''flex items-start gap-3 '' @ (if Some (msg_uid m) = u then ''flex-row-reverse'' else ''flex-row''),
      r_bubble_class =
        ''message-animation p-4 rounded-3xl max-w-lg shadow-md '' @
        (if Some (msg_uid m) = u then ''bg-indigo-500 text-white rounded-br-none''
         else ''bg-white dark:bg-gray-700 text-gray-800 dark:text-gray-200 rounded-bl-none''),
      r_label = (if Some (msg_uid m) \<noteq> u then Some (msg_uid m) else None),
      r_text = msg_text m,
      r_time_class =
        ''text-xs mt-1 '' @
        (if Some (msg_uid m) = u then ''text-indigo-200'' else ''text-gray-400 dark:text-gray-500''),
      r_time = fmt (msg_createdAt m)\<rparr>"

datatype thread_view = Placeholder | Thread "rendered_message list"

definition render_thread :: "(date \<Rightarrow> string) \<Rightarrow> js_string option \<Rightarrow> message list \<Rightarrow> thread_view" where
  "render_thread fmt u ms =
     (if length ms > 0 then Thread (map (render_message fmt u) ms) else Placeholder)"

record chat_view =
  v_dark_icon :: bool
  v_userId :: "js_string option"
  v_thread :: thread_view
  v_input :: js_string
  v_send_disabled :: bool

datatype view = LoadingView | ChatView chat_view

definition render :: "(date \<Rightarrow> string) \<Rightarrow> app_state \<Rightarrow> view" where
  "render fmt st =
     (if loading st then LoadingView
      else ChatView
        \<lparr>v_dark_icon = darkMode st, v_userId = userId st,
         v_thread = render_thread fmt (userId st) (messages st),
         v_input = newMessage st, v_send_disabled = (trim (newMessage st) = [])\<rparr>)"


text \<open>The message elements of a rendered view, in document order.\<close>

fun rendered_messages :: "view \<Rightarrow> rendered_message list" where
  "rendered_messages LoadingView = []"
| "rendered_messages (ChatView cv) = (case v_thread cv of Placeholder \<Rightarrow> [] | Thread rs \<Rightarrow> rs)"

section \<open>The message store\<close>

text \<open>
  Modelled from the spec: the backend collaborator of section 6, which is not part of the
  repository. \<open>append\<close> writes a record whose timestamp field the store assigns: the
  \<open>serverTimestamp()\<close> sentinel becomes the store's clock reading \<open>server_ts\<close>, a date sent
  by the client is stored as sent (\<open>fromDate\<close>). \<open>subscribe\<close> with \<open>orderBy('createdAt')\<close>
  delivers the collection in ascending order of that field.
\<close>

definition store_append ::
    "(date \<Rightarrow> 'ts) \<Rightarrow> js_string \<Rightarrow> 'ts \<Rightarrow> written_doc \<Rightarrow> 'ts snapshot_doc list \<Rightarrow> 'ts snapshot_doc list" where
  "store_append fromDate new_id server_ts d store =
     store @
     [\<lparr>doc_id = new_id, doc_text = w_text d, doc_uid = w_uid d,
       doc_createdAt =
         Some (case w_createdAt d of ServerTimestamp \<Rightarrow> server_ts | ClientDate c \<Rightarrow> fromDate c)\<rparr>]"



section \<open>Example sessions\<close>

definition blank_state :: app_state where
  "blank_state =
     \<lparr>db = Some (Firestore 0), auth = Some (FirebaseAuth 0), userId = Some (js ''A''),
      messages = [], newMessage = [0x20, 0x09, 0x3000], loading = False, darkMode = False\<rparr>"

definition padded_state :: app_state where
  "padded_state =
     \<lparr>db = Some (Firestore 0), auth = Some (FirebaseAuth 0), userId = Some (js ''A''),
      messages = [], newMessage = js '' hi  '', loading = False, darkMode = False\<rparr>"

definition two_messages :: "message list" where
  "two_messages =
     [\<lparr>msg_id = js ''1'', msg_text = js ''hi'', msg_uid = js ''A'', msg_createdAt = 1000\<rparr>,
      \<lparr>msg_id = js ''2'', msg_text = js ''yo'', msg_uid = js ''B'', msg_createdAt = 2000\<rparr>]"

definition ready_state :: app_state where
  "ready_state =
     \<lparr>db = Some (Firestore 0), auth = Some (FirebaseAuth 0), userId = Some (js ''A''),
      messages = two_messages, newMessage = [], loading = False, darkMode = False\<rparr>"

definition snapshot_pending :: "nat snapshot_doc list" where
  "snapshot_pending =
     [\<lparr>doc_id = js ''1'', doc_text = js ''hi'', doc_uid = js ''A'', doc_createdAt = Some 5\<rparr>,
      \<lparr>doc_id = js ''2'', doc_text = js ''yo'', doc_uid = js ''B'', doc_createdAt = None\<rparr>]"






definition three_cycles :: "lifecycle_event list" where
  "three_cycles =
     [Render None None (js ''app''),
      Render (Some (Firestore 0)) None (js ''app''),
      Render (Some (Firestore 0)) (Some (js ''A'')) (js ''app''),
      Render (Some (Firestore 0)) (Some (js ''A'')) (js ''app''),
      Unmount,
      Render (Some (Firestore 0)) (Some (js ''A'')) (js ''app''),
      Render (Some (Firestore 0)) (Some (js ''B'')) (js ''app''),
      Unmount]"


section \<open>Properties of the composer\<close>

lemma trim_empty_iff: "trim s = [] \<longleftrightarrow> (\<forall>c \<in> set s. isWhiteSpace c)"
proof
  assume t: "trim s = []"
  let ?r = "dropWhile isWhiteSpace (rev s)"
  have "\<forall>x \<in> set ?r. isWhiteSpace x"
    using t by (simp add: trim_def)
  moreover have "?r \<noteq> [] \<Longrightarrow> \<not> isWhiteSpace (hd ?r)"
    by (rule hd_dropWhile)
  ultimately have "?r = []"
    by (cases ?r) auto
  then show "\<forall>c \<in> set s. isWhiteSpace c"
    by simp
next
  assume "\<forall>c \<in> set s. isWhiteSpace c"
  then have "dropWhile isWhiteSpace (rev s) = []"
    by simp
  then show "trim s = []"
    unfolding trim_def by (simp only: rev.simps dropWhile.simps)
qed

lemma js_examples: "js ''A'' \<noteq> []" "js ''B'' \<noteq> []" "js ''A'' \<noteq> js ''B''"
  by (simp_all add: js_def)

lemma truthy_Some: "truthy v \<longleftrightarrow> (\<exists>u. v = Some u \<and> u \<noteq> [])"
  by (cases v) (auto simp: truthy_def)

lemma call_blocked:
  "trim (newMessage st) = [] \<or> db st = None \<or> \<not> truthy (userId st) \<Longrightarrow>
   handleSendMessage_call appId st = (Returned, [PreventDefault])"
  by (simp add: handleSendMessage_call_def)

lemma call_passes:
  "trim (newMessage st) \<noteq> [] \<Longrightarrow> db st \<noteq> None \<Longrightarrow> userId st = Some u \<Longrightarrow> u \<noteq> [] \<Longrightarrow>
   handleSendMessage_call appId st =
     (Awaiting,
      [PreventDefault,
       AddDoc (chatCollectionPath appId)
         \<lparr>w_text = newMessage st, w_uid = u, w_createdAt = ServerTimestamp\<rparr>])"
  by (simp add: handleSendMessage_call_def truthy_def)

lemma writes_of_submit:
  "store_writes (snd (handleSendMessage appId outcome st)) =
     (if trim (newMessage st) = [] \<or> db st = None \<or> \<not> truthy (userId st) then []
      else [\<lparr>w_text = newMessage st, w_uid = the (userId st), w_createdAt = ServerTimestamp\<rparr>])"
  by (cases outcome)
     (simp_all add: handleSendMessage_def handleSendMessage_call_def handleSendMessage_settle_def)

text \<open>
  C3. When the input buffer is empty or holds only white space (its trimmed form is
  empty, see \<open>trim_empty_iff\<close>), a submit returns the state as it was and its only
  effect is \<open>preventDefault\<close>: nothing is handed to \<open>addDoc\<close>.
\<close>

theorem submit_blank_no_write:
  assumes "trim (newMessage st) = []"
  shows "handleSendMessage appId outcome st = (st, [PreventDefault]) \<and>
         store_writes (snd (handleSendMessage appId outcome st)) = []"
  using assms by (simp add: writes_of_submit handleSendMessage_def call_blocked)

theorem submit_blank_no_write_witness:
  "trim (newMessage blank_state) = [] \<and>
   handleSendMessage (js ''app'') Resolved blank_state = (blank_state, [PreventDefault]) \<and>
   store_writes (snd (handleSendMessage (js ''app'') Resolved blank_state)) = []"
proof -
  have h: "trim (newMessage blank_state) = []"
    by (simp add: blank_state_def trim_def isWhiteSpace_def)
  show ?thesis
    using h submit_blank_no_write [OF h, of "js ''app''" Resolved] by simp
qed

text \<open>
  C10. A submit that passes the guard hands exactly one document to \<open>addDoc\<close>, and its
  \<open>text\<close> is the input buffer as typed: the guard looks at the trimmed string, the
  write takes the untrimmed one.
\<close>

theorem submit_writes_raw_text:
  assumes "trim (newMessage st) \<noteq> []" and "db st \<noteq> None" and "truthy (userId st)"
  shows "map w_text (store_writes (snd (handleSendMessage appId outcome st))) = [newMessage st]"
  using assms by (simp add: writes_of_submit)

theorem submit_writes_raw_text_witness:
  "trim (newMessage padded_state) = js ''hi'' \<and>
   map w_text (store_writes (snd (handleSendMessage (js ''app'') Resolved padded_state))) =
     [js '' hi  '']"
proof -
  have t: "trim (newMessage padded_state) = js ''hi''"
    by (simp add: padded_state_def trim_def isWhiteSpace_def js_def)
  have h1: "trim (newMessage padded_state) \<noteq> []"
    by (simp add: t js_def)
  have h2: "db padded_state \<noteq> None" and h3: "truthy (userId padded_state)"
    by (simp_all add: padded_state_def truthy_def js_def)
  show ?thesis
    using t submit_writes_raw_text [OF h1 h2 h3, of "js ''app''" Resolved]
    by (simp add: padded_state_def)
qed

text \<open>
  C1. Every document a submit hands to \<open>addDoc\<close> carries the session's \<open>userId\<close> as
  \<open>uid\<close> and the \<open>serverTimestamp()\<close> sentinel as \<open>createdAt\<close>, never a date computed by
  the client; the store therefore records the timestamp it assigns itself.
\<close>

theorem submit_author_and_server_timestamp:
  assumes "d \<in> set (store_writes (snd (handleSendMessage appId outcome st)))"
  shows "userId st = Some (w_uid d) \<and> w_createdAt d = ServerTimestamp \<and>
         (\<forall>c. w_createdAt d \<noteq> ClientDate c) \<and>
         store_append fromDate new_id server_ts d store =
           store @ [\<lparr>doc_id = new_id, doc_text = newMessage st, doc_uid = w_uid d,
                     doc_createdAt = Some server_ts\<rparr>]"
proof -
  from assms have g: "\<not> (trim (newMessage st) = [] \<or> db st = None \<or> \<not> truthy (userId st))"
    and d: "d = \<lparr>w_text = newMessage st, w_uid = the (userId st), w_createdAt = ServerTimestamp\<rparr>"
    by (auto simp: writes_of_submit split: if_splits)
  from g obtain u where u: "userId st = Some u"
    by (auto simp: truthy_Some)
  show ?thesis
    by (simp add: d u store_append_def)
qed

theorem submit_author_and_server_timestamp_witness:
  "store_writes (snd (handleSendMessage (js ''app'') Resolved padded_state)) =
     [\<lparr>w_text = js '' hi  '', w_uid = js ''A'', w_createdAt = ServerTimestamp\<rparr>] \<and>
   userId padded_state = Some (js ''A'') \<and>
   store_append (\<lambda>c. nat c) (js ''m1'') (42::nat)
     \<lparr>w_text = js '' hi  '', w_uid = js ''A'', w_createdAt = ServerTimestamp\<rparr> [] =
     [\<lparr>doc_id = js ''m1'', doc_text = js '' hi  '', doc_uid = js ''A'', doc_createdAt = Some 42\<rparr>]"
proof -
  have w: "store_writes (snd (handleSendMessage (js ''app'') Resolved padded_state)) =
     [\<lparr>w_text = js '' hi  '', w_uid = js ''A'', w_createdAt = ServerTimestamp\<rparr>]"
    by (simp add: writes_of_submit padded_state_def trim_def isWhiteSpace_def js_def truthy_def)
  have h: "\<lparr>w_text = js '' hi  '', w_uid = js ''A'', w_createdAt = ServerTimestamp\<rparr>
      \<in> set (store_writes (snd (handleSendMessage (js ''app'') Resolved padded_state)))"
    by (simp add: w)
  show ?thesis
    using w submit_author_and_server_timestamp [OF h, of "\<lambda>c. nat c" "js ''m1''" "42::nat" "[]"]
    by (simp add: padded_state_def)
qed

text \<open>
  C4. A submit that passes the guard calls \<open>addDoc\<close> once. When the write resolves, the
  input buffer is set to the empty string; when it is rejected, the state is returned as
  it was and the error goes to \<open>console.error\<close>, with no second \<open>addDoc\<close>. The same holds
  when other events changed the state (\<open>later\<close>) while the write was in flight.
\<close>

theorem submit_outcome_input_buffer:
  assumes "trim (newMessage st) \<noteq> []" and "db st \<noteq> None" and "truthy (userId st)"
  shows "handleSendMessage appId Resolved st =
           (st\<lparr>newMessage := []\<rparr>,
            [PreventDefault,
             AddDoc (chatCollectionPath appId)
               \<lparr>w_text = newMessage st, w_uid = the (userId st), w_createdAt = ServerTimestamp\<rparr>]) \<and>
         handleSendMessage appId (Rejected e) st =
           (st,
            [PreventDefault,
             AddDoc (chatCollectionPath appId)
               \<lparr>w_text = newMessage st, w_uid = the (userId st), w_createdAt = ServerTimestamp\<rparr>,
             ConsoleError ''Error sending message:'' e]) \<and>
         handleSendMessage_call appId st =
           (Awaiting,
            [PreventDefault,
             AddDoc (chatCollectionPath appId)
               \<lparr>w_text = newMessage st, w_uid = the (userId st), w_createdAt = ServerTimestamp\<rparr>]) \<and>
         (\<forall>later. newMessage (fst (handleSendMessage_settle Resolved later)) = [] \<and>
                  snd (handleSendMessage_settle Resolved later) = [] \<and>
                  handleSendMessage_settle (Rejected e) later =
                    (later, [ConsoleError ''Error sending message:'' e]))"
  using assms
  by (simp add: handleSendMessage_def handleSendMessage_call_def handleSendMessage_settle_def)

theorem submit_outcome_input_buffer_witness:
  "newMessage (fst (handleSendMessage (js ''app'') Resolved padded_state)) = [] \<and>
   fst (handleSendMessage (js ''app'') (Rejected (JsError ''offline'')) padded_state) = padded_state \<and>
   snd (handleSendMessage (js ''app'') (Rejected (JsError ''offline'')) padded_state) =
     [PreventDefault,
      AddDoc (chatCollectionPath (js ''app''))
        \<lparr>w_text = js '' hi  '', w_uid = js ''A'', w_createdAt = ServerTimestamp\<rparr>,
      ConsoleError ''Error sending message:'' (JsError ''offline'')]"
proof -
  have h1: "trim (newMessage padded_state) \<noteq> []"
    by (simp add: padded_state_def trim_def isWhiteSpace_def js_def)
  have h2: "db padded_state \<noteq> None" and h3: "truthy (userId padded_state)"
    by (simp_all add: padded_state_def truthy_def js_def)
  show ?thesis
    using submit_outcome_input_buffer [OF h1 h2 h3, of "js ''app''" "JsError ''offline''"]
    by (simp add: padded_state_def)
qed


section \<open>Properties of the thread renderer\<close>

lemma rendered_messages_render:
  "\<not> loading st \<Longrightarrow>
   rendered_messages (render fmt st) = map (render_message fmt (userId st)) (messages st)"
  by (cases "messages st") (simp_all add: render_def render_thread_def)

text \<open>
  C5. Once loading is over, the view holds one element per message, in order. A message
  whose \<open>uid\<close> is the session's \<open>userId\<close> gets the reversed row (right-aligned), the
  indigo bubble and time colours, and no author label; any other message gets the plain
  row (left-aligned), the neutral colours, and a label showing its \<open>uid\<close>.
\<close>

theorem render_own_and_other:
  assumes "\<not> loading st"
  shows "rendered_messages (render fmt st) = map (render_message fmt (userId st)) (messages st) \<and>
         (\<forall>m. (userId st = Some (msg_uid m) \<longrightarrow>
                 r_row_class (render_message fmt (userId st) m) =
                   ''flex items-start gap-3 flex-row-reverse'' \<and>
                 r_bubble_class (render_message fmt (userId st) m) =
                   ''message-animation p-4 rounded-3xl max-w-lg shadow-md bg-indigo-500 text-white rounded-br-none'' \<and>
                 r_time_class (render_message fmt (userId st) m) = ''text-xs mt-1 text-indigo-200'' \<and>
                 r_label (render_message fmt (userId st) m) = None) \<and>
              (userId st \<noteq> Some (msg_uid m) \<longrightarrow>
                 r_row_class (render_message fmt (userId st) m) = ''flex items-start gap-3 flex-row'' \<and>
                 r_bubble_class (render_message fmt (userId st) m) =
                   ''message-animation p-4 rounded-3xl max-w-lg shadow-md bg-white dark:bg-gray-700 text-gray-800 dark:text-gray-200 rounded-bl-none'' \<and>
                 r_time_class (render_message fmt (userId st) m) =
                   ''text-xs mt-1 text-gray-400 dark:text-gray-500'' \<and>
                 r_label (render_message fmt (userId st) m) = Some (msg_uid m)))"
proof -
  have "\<And>m. userId st = Some (msg_uid m) \<longleftrightarrow> Some (msg_uid m) = userId st"
    by auto
  then show ?thesis
    using assms by (simp add: rendered_messages_render render_message_def)
qed

theorem render_own_and_other_witness:
  "\<not> loading ready_state \<and>
   map r_label (rendered_messages (render (\<lambda>d. ''t'') ready_state)) = [None, Some (js ''B'')] \<and>
   map r_row_class (rendered_messages (render (\<lambda>d. ''t'') ready_state)) =
     [''flex items-start gap-3 flex-row-reverse'', ''flex items-start gap-3 flex-row'']"
proof -
  have h: "\<not> loading ready_state"
    by (simp add: ready_state_def)
  show ?thesis
    using h render_own_and_other [OF h, of "\<lambda>d. ''t''"]
    by (simp add: ready_state_def two_messages_def js_def render_message_def)
qed


section \<open>Properties of the live feed\<close>

lemma length_fetchedMessages: "length (fetchedMessages toDate clock i docs) = length docs"
  by (induction docs arbitrary: i) simp_all

lemma nth_fetchedMessages:
  "k < length docs \<Longrightarrow>
   fetchedMessages toDate clock i docs ! k =
     \<lparr>msg_id = doc_id (docs ! k), msg_text = doc_text (docs ! k), msg_uid = doc_uid (docs ! k),
      msg_createdAt =
        (case doc_createdAt (docs ! k) of Some ts \<Rightarrow> toDate ts | None \<Rightarrow> clock (i + k))\<rparr>"
proof (induction docs arbitrary: i k)
  case Nil
  then show ?case by simp
next
  case (Cons d ds)
  show ?case
  proof (cases k)
    case 0
    then show ?thesis by (simp cong: option.case_cong)
  next
    case (Suc j)
    with Cons.prems have "j < length ds" by simp
    from Cons.IH [OF this, of "Suc i"] show ?thesis
      by (simp add: Suc cong: option.case_cong)
  qed
qed


text \<open>
  C6. A delivered snapshot replaces the message list: the new list does not depend on the
  old one, no other state cell changes, and it has one message per document, in order,
  with the document's id, text and uid; \<open>createdAt\<close> is the store's timestamp converted
  by \<open>toDate\<close>, or what \<open>new Date()\<close> reads when the document has no timestamp yet. An
  empty snapshot gives an empty list.
\<close>

theorem snapshot_replaces_messages:
  "onSnapshot_next toDate clock docs st = st\<lparr>messages := messages (onSnapshot_next toDate clock docs st)\<rparr> \<and>
   onSnapshot_next toDate clock docs (st\<lparr>messages := old\<rparr>) = onSnapshot_next toDate clock docs st \<and>
   length (messages (onSnapshot_next toDate clock docs st)) = length docs \<and>
   (\<forall>k < length docs.
      messages (onSnapshot_next toDate clock docs st) ! k =
        \<lparr>msg_id = doc_id (docs ! k), msg_text = doc_text (docs ! k), msg_uid = doc_uid (docs ! k),
         msg_createdAt =
           (case doc_createdAt (docs ! k) of Some ts \<Rightarrow> toDate ts | None \<Rightarrow> clock k)\<rparr>) \<and>
   messages (onSnapshot_next toDate clock [] st) = []"
  by (simp add: onSnapshot_next_def length_fetchedMessages nth_fetchedMessages
        cong: option.case_cong)

theorem snapshot_replaces_messages_witness:
  "messages (onSnapshot_next (\<lambda>ts. 1000 * int ts) (\<lambda>i. 7777) snapshot_pending ready_state) =
     [\<lparr>msg_id = js ''1'', msg_text = js ''hi'', msg_uid = js ''A'', msg_createdAt = 5000\<rparr>,
      \<lparr>msg_id = js ''2'', msg_text = js ''yo'', msg_uid = js ''B'', msg_createdAt = 7777\<rparr>] \<and>
   messages (onSnapshot_next (\<lambda>ts. 1000 * int ts) (\<lambda>i. 7777) ([] :: nat snapshot_doc list) ready_state) = []"
proof -
  let ?st = "onSnapshot_next (\<lambda>ts. 1000 * int ts) (\<lambda>i. 7777) snapshot_pending ready_state"
  note t = snapshot_replaces_messages
    [of "\<lambda>ts. 1000 * int ts" "\<lambda>i. 7777" snapshot_pending ready_state "[]"]
  from t have len: "length (messages ?st) = 2"
    by (simp add: snapshot_pending_def)
  from t have e0: "messages ?st ! 0 =
      \<lparr>msg_id = js ''1'', msg_text = js ''hi'', msg_uid = js ''A'', msg_createdAt = 5000\<rparr>"
    by (simp add: snapshot_pending_def)
  from t have e1: "messages ?st ! 1 =
      \<lparr>msg_id = js ''2'', msg_text = js ''yo'', msg_uid = js ''B'', msg_createdAt = 7777\<rparr>"
    by (simp add: snapshot_pending_def)
  have "messages ?st = [messages ?st ! 0, messages ?st ! 1]"
    using len by (auto simp: list_eq_iff_nth_eq less_Suc_eq numeral_2_eq_2)
  then have "messages ?st =
     [\<lparr>msg_id = js ''1'', msg_text = js ''hi'', msg_uid = js ''A'', msg_createdAt = 5000\<rparr>,
      \<lparr>msg_id = js ''2'', msg_text = js ''yo'', msg_uid = js ''B'', msg_createdAt = 7777\<rparr>]"
    by (simp only: e0 e1)
  moreover have "messages (onSnapshot_next (\<lambda>ts. 1000 * int ts) (\<lambda>i. 7777)
      ([] :: nat snapshot_doc list) ready_state) = []"
    using snapshot_replaces_messages
      [of "\<lambda>ts. 1000 * int ts" "\<lambda>i. 7777" "[] :: nat snapshot_doc list" ready_state "[]"]
    by simp
  ultimately show ?thesis by simp
qed

text \<open>
  C8. The error callback of the subscription only calls \<open>console.error\<close>: the state,
  and with it the message list and the rendered view, stay as they were, and nothing
  is written to the store.
\<close>

theorem snapshot_error_keeps_state:
  "fst (onSnapshot_error e st) = st \<and>
   messages (fst (onSnapshot_error e st)) = messages st \<and>
   render fmt (fst (onSnapshot_error e st)) = render fmt st \<and>
   snd (onSnapshot_error e st) = [ConsoleError ''Error fetching messages:'' e] \<and>
   store_writes (snd (onSnapshot_error e st)) = []"
  by (simp add: onSnapshot_error_def)

theorem snapshot_error_keeps_state_witness:
  "messages (fst (onSnapshot_error (JsError ''permission-denied'') ready_state)) = two_messages \<and>
   snd (onSnapshot_error (JsError ''permission-denied'') ready_state) =
     [ConsoleError ''Error fetching messages:'' (JsError ''permission-denied'')]"
  using snapshot_error_keeps_state [of "JsError ''permission-denied''" ready_state "\<lambda>d. ''t''"]
  by (simp add: ready_state_def)

section \<open>Rendered order\<close>

lemma collection_accepts_app: "collection_accepts (chatCollectionPath (js ''app''))"
  by (simp add: collection_accepts_def chatCollectionPath_def js_def)

text \<open>
  Paths that \<open>collection\<close> refuses: an app id with a slash gives an even number of
  segments, an empty app id gives \<open>//\<close>. The subscription effect throws there.
\<close>

lemma collection_refuses:
  "\<not> collection_accepts (chatCollectionPath (js ''a/b''))"
  "\<not> collection_accepts (chatCollectionPath [])"
  "subscription_effect (js ''a/b'') (Some (Firestore 0)) (Some (js ''A'')) 0 =
     Inl (JsError ''invalid-argument'')"
  by (simp_all add: subscription_effect_def collection_accepts_def chatCollectionPath_def js_def
      truthy_def)





section \<open>Properties of the session bootstrap\<close>

lemma startup_config_throws:
  "env_firebase_config env = Some (Inl e) \<Longrightarrow> startup env = RenderThrows e"
  by (simp add: startup_def)











section \<open>The subscription over the component's life\<close>

lemma opened_append: "opened (xs @ ys) = opened xs @ opened ys"
  by (induction xs rule: opened.induct) simp_all

lemma cancelled_append: "cancelled (xs @ ys) = cancelled xs @ cancelled ys"
  by (induction xs rule: cancelled.induct) simp_all

lemma active_after_append:
  "active_after acc (xs @ ys) = active_after (active_after acc xs) ys"
  by (induction acc xs rule: active_after.induct) simp_all

lemma active_append: "active (xs @ ys) = active_after (active xs) ys"
  by (simp add: active_def active_after_append)

lemma at_most_one_Nil: "at_most_one []"
  by (simp add: at_most_one_def active_def)

lemma at_most_one_snoc:
  assumes "at_most_one tr" and "length (active (tr @ [e])) \<le> 1"
  shows "at_most_one (tr @ [e])"
  unfolding at_most_one_def
proof
  fix n
  show "length (active (take n (tr @ [e]))) \<le> 1"
  proof (cases "n \<le> length tr")
    case True
    then show ?thesis
      using assms(1) by (simp add: at_most_one_def)
  next
    case False
    then show ?thesis
      using assms(2) by simp
  qed
qed

lemma slot_inv_unmounted: "slot_inv unmounted_slot"
  by (simp add: slot_inv_def unmounted_slot_def at_most_one_Nil active_def)

lemma slot_inv_cleanup:
  assumes "slot_inv w"
  shows "at_most_one (trace w @ run_cleanup (cleanup_fn w)) \<and>
         opened (trace w @ run_cleanup (cleanup_fn w)) = [0..<next_handle w] \<and>
         cancelled (trace w @ run_cleanup (cleanup_fn w)) = [0..<next_handle w] \<and>
         active (trace w @ run_cleanup (cleanup_fn w)) = []"
proof (cases "cleanup_fn w")
  case None
  with assms show ?thesis
    by (simp add: slot_inv_def run_cleanup_def)
next
  case (Some h)
  with assms have a: "at_most_one (trace w)" and n: "next_handle w = Suc h"
    and o: "opened (trace w) = [0..<Suc h]" and c: "cancelled (trace w) = [0..<h]"
    and l: "active (trace w) = [h]"
    by (simp_all add: slot_inv_def)
  have "active (trace w @ [Unsubscribe h]) = []"
    by (simp add: active_append l)
  moreover from this a have "at_most_one (trace w @ [Unsubscribe h])"
    by (intro at_most_one_snoc) simp_all
  ultimately show ?thesis
    using Some n o c by (simp add: run_cleanup_def opened_append cancelled_append)
qed

lemma slot_inv_step:
  assumes "slot_inv w"
  shows "slot_inv (react_step w ev)"
proof (cases ev)
  case Unmount
  show ?thesis
  proof (cases "mounted w")
    case True
    with slot_inv_cleanup [OF assms] show ?thesis
      by (simp add: Unmount slot_inv_def)
  next
    case False
    with assms show ?thesis
      by (simp add: Unmount)
  qed
next
  case (Render d u a)
  let ?tr = "trace w @ run_cleanup (cleanup_fn w)"
  note c = slot_inv_cleanup [OF assms]
  show ?thesis
  proof (cases "mounted w \<and> last_deps w = Some (d, u, a)")
    case True
    with assms show ?thesis
      by (simp add: Render)
  next
    case False
    then have rerun:
      "react_step w (Render d u a) =
         (case subscription_effect a d u (next_handle w) of
             Inl e \<Rightarrow>
              w\<lparr>mounted := False, last_deps := None, cleanup_fn := None,
                trace := trace w @ run_cleanup (cleanup_fn w)\<rparr>
          | Inr (c, es) \<Rightarrow>
              w\<lparr>mounted := True, last_deps := Some (d, u, a), cleanup_fn := c,
                next_handle := (case c of None \<Rightarrow> next_handle w | Some h \<Rightarrow> Suc (next_handle w)),
                trace := trace w @ run_cleanup (cleanup_fn w) @ es\<rparr>)"
      by (simp only: react_step.simps if_False)
    show ?thesis
    proof (cases "subscription_effect a d u (next_handle w)")
      case (Inl e)
      with c show ?thesis
        by (simp add: Render rerun slot_inv_def del: react_step.simps)
    next
      case (Inr r)
      show ?thesis
      proof (cases "d \<noteq> None \<and> truthy u")
      case False
      then have "subscription_effect a d u (next_handle w) = Inr (None, [])"
        by (auto simp: subscription_effect_def)
      with c show ?thesis
        by (simp add: Render rerun slot_inv_def del: react_step.simps)
    next
      case True
      let ?e = "OnSnapshot (chatCollectionPath a) ''createdAt'' (next_handle w)"
      from True Inr have s: "subscription_effect a d u (next_handle w) = Inr (Some (next_handle w), [?e])"
        by (simp add: subscription_effect_def split: if_splits)
      have l: "active (?tr @ [?e]) = [next_handle w]"
        by (subst active_append) (simp add: c)
      have "at_most_one (?tr @ [?e])"
        using c l by (intro at_most_one_snoc) simp_all
      with c l s show ?thesis
        by (simp add: Render rerun slot_inv_def opened_append cancelled_append
            del: react_step.simps)
    qed
    qed
  qed
qed

lemma slot_inv_run: "slot_inv (run_lifecycle evs)"
proof (induction evs rule: rev_induct)
  case Nil
  show ?case by (simp add: run_lifecycle_def slot_inv_unmounted)
next
  case (snoc ev evs)
  then show ?case
    by (simp add: run_lifecycle_def slot_inv_step)
qed

text \<open>
  C9. Over any sequence of renders and unmounts: at every point of the trace at most one
  listener is live; every \<open>onSnapshot\<close> call opens a new listener and none is cancelled
  twice; only opened listeners are cancelled; the live listener is the one the current
  cleanup holds; and once the component is unmounted no listener is live and the
  listeners cancelled are exactly the listeners opened, each once.
\<close>

theorem one_subscription_cancelled_once:
  "(\<forall>n. length (active (take n (trace (run_lifecycle evs)))) \<le> 1) \<and>
   distinct (opened (trace (run_lifecycle evs))) \<and>
   distinct (cancelled (trace (run_lifecycle evs))) \<and>
   set (cancelled (trace (run_lifecycle evs))) \<subseteq> set (opened (trace (run_lifecycle evs))) \<and>
   active (trace (run_lifecycle evs)) =
     (case cleanup_fn (run_lifecycle evs) of None \<Rightarrow> [] | Some h \<Rightarrow> [h]) \<and>
   (\<not> mounted (run_lifecycle evs) \<longrightarrow>
      active (trace (run_lifecycle evs)) = [] \<and>
      cancelled (trace (run_lifecycle evs)) = opened (trace (run_lifecycle evs)))"
proof -
  have i: "slot_inv (run_lifecycle evs)"
    by (rule slot_inv_run)
  then have "at_most_one (trace (run_lifecycle evs))"
    by (simp add: slot_inv_def)
  then have 1: "\<forall>n. length (active (take n (trace (run_lifecycle evs)))) \<le> 1"
    by (simp add: at_most_one_def)
  show ?thesis
    using i 1 by (auto simp: slot_inv_def split: option.splits)
qed

lemma three_cycles_trace:
  "trace (run_lifecycle three_cycles) =
     [OnSnapshot (chatCollectionPath (js ''app'')) ''createdAt'' 0, Unsubscribe 0,
      OnSnapshot (chatCollectionPath (js ''app'')) ''createdAt'' 1, Unsubscribe 1,
      OnSnapshot (chatCollectionPath (js ''app'')) ''createdAt'' 2, Unsubscribe 2]"
  by (simp add: run_lifecycle_def three_cycles_def unmounted_slot_def subscription_effect_def
      collection_accepts_app truthy_def run_cleanup_def js_examples)

text \<open>An effect that throws opens no listener and leaves the component unmounted.\<close>

lemma throwing_effect_opens_nothing:
  "run_lifecycle [Render (Some (Firestore 0)) (Some (js ''A'')) (js ''a/b'')] = unmounted_slot"
  by (simp add: run_lifecycle_def unmounted_slot_def collection_refuses run_cleanup_def)

theorem one_subscription_cancelled_once_witness:
  "\<not> mounted (run_lifecycle three_cycles) \<and>
   opened (trace (run_lifecycle three_cycles)) = [0, 1, 2] \<and>
   cancelled (trace (run_lifecycle three_cycles)) = [0, 1, 2] \<and>
   active (trace (run_lifecycle three_cycles)) = [] \<and>
   active (take 3 (trace (run_lifecycle three_cycles))) = [1]"
proof -
  have m: "\<not> mounted (run_lifecycle three_cycles)"
    by (simp add: run_lifecycle_def three_cycles_def unmounted_slot_def subscription_effect_def
        collection_accepts_app truthy_def run_cleanup_def js_examples)
  have o: "opened (trace (run_lifecycle three_cycles)) = [0, 1, 2]"
    by (simp add: three_cycles_trace)
  have p: "active (take 3 (trace (run_lifecycle three_cycles))) = [1]"
    by (simp add: three_cycles_trace active_def)
  from m one_subscription_cancelled_once [of three_cycles]
  have "active (trace (run_lifecycle three_cycles)) = [] \<and>
        cancelled (trace (run_lifecycle three_cycles)) = opened (trace (run_lifecycle three_cycles))"
    by blast
  with m o p show ?thesis
    by simp
qed

end
